theory Spec2Isabelle
  imports Complex_Main
begin

section \<open>Traffic-light simulator: the model\<close>

text \<open>
  A shallow embedding of \<^verbatim>\<open>traffic_light_simulator.py\<close>: the light state machine
  (\<^verbatim>\<open>TrafficLight\<close>), vehicle motion and braking (\<^verbatim>\<open>Car\<close>), spawning
  (\<^verbatim>\<open>Spawner\<close>) and one simulation step (\<^verbatim>\<open>Simulation.update\<close>).

  Conventions of the model.
  \<^item> Python \<^verbatim>\<open>int\<close> is \<open>int\<close>. Python \<^verbatim>\<open>float\<close> (positions, speed, \<^verbatim>\<open>dt\<close>) is
    idealised as \<open>real\<close>: rounding is not modelled.
  \<^item> \<^verbatim>\<open>Car\<close> objects are mutable and shared between \<^verbatim>\<open>self.cars\<close> and the copy
    \<^verbatim>\<open>list(self.cars)\<close> the step iterates over, so they live in an explicit store:
    a list of cars is a list of references.
  \<^item> The raw output of the random generator is an input of the model;
    \<^verbatim>\<open>random.randint\<close> reduces it to the range it is called with.
  \<^item> \<^verbatim>\<open>list.remove\<close> raises \<^verbatim>\<open>ValueError\<close> when no element matches, and
    \<^verbatim>\<open>random.randint\<close> raises it on an empty range. Nothing in the program catches
    it, so the run ends there: a step that raises returns \<open>None\<close>.
  \<^item> Rendering, event handling and the frame clock are outside the model.
\<close>

subsection \<open>Constants and enumerations\<close>

definition ANCHO_PANTALLA :: int where
  "ANCHO_PANTALLA = 900"

definition ALTO_PANTALLA :: int where
  "ALTO_PANTALLA = 600"

datatype LightState = VERDE | AMARILLO | ROJO

datatype Direction = NORTE | SUR | ESTE | OESTE

definition TIEMPO_VERDE :: int where
  "TIEMPO_VERDE = 6000"

definition TIEMPO_AMARILLO :: int where
  "TIEMPO_AMARILLO = 2000"

subsection \<open>TrafficLight\<close>

record TrafficLight =
  position :: "real \<times> real"
  orientation :: Direction
  last_change_ms :: int
  state :: LightState

text \<open>The dataclass constructor \<^verbatim>\<open>TrafficLight(position, orientation)\<close> with its defaults.\<close>

definition TrafficLight_new :: "real \<times> real \<Rightarrow> Direction \<Rightarrow> TrafficLight" where
  "TrafficLight_new p ori =
     \<lparr>TrafficLight.position = p, orientation = ori, last_change_ms = 0, state = VERDE\<rparr>"

text \<open>\<^verbatim>\<open>TrafficLight.update\<close>: the \<^verbatim>\<open>if/elif/elif\<close> chain, in the source's order.\<close>

definition TrafficLight_update :: "int \<Rightarrow> TrafficLight \<Rightarrow> TrafficLight" where
  "TrafficLight_update current_ms l =
     (let tiempo_en_estado = current_ms - last_change_ms l in
      if state l = VERDE \<and> tiempo_en_estado \<ge> TIEMPO_VERDE then
        l\<lparr>state := AMARILLO, last_change_ms := current_ms\<rparr>
      else if state l = AMARILLO \<and> tiempo_en_estado \<ge> TIEMPO_AMARILLO then
        l\<lparr>state := ROJO, last_change_ms := current_ms\<rparr>
      else if state l = ROJO \<and> tiempo_en_estado \<ge> TIEMPO_VERDE + TIEMPO_AMARILLO then
        l\<lparr>state := VERDE, last_change_ms := current_ms\<rparr>
      else l)"

text \<open>\<^verbatim>\<open>TrafficLight.is_green_for\<close>.\<close>

definition is_green_for :: "TrafficLight \<Rightarrow> Direction \<Rightarrow> bool" where
  "is_green_for l direction =
     (let mismo_eje =
        (if direction \<in> {NORTE, SUR} then orientation l \<in> {NORTE, SUR}
         else orientation l \<in> {ESTE, OESTE})
      in mismo_eje \<and> state l = VERDE)"

subsection \<open>Spawner: the fields\<close>

text \<open>\<^verbatim>\<open>Spawner.update\<close> allocates a \<^verbatim>\<open>Car\<close> and follows the store below.\<close>

record Spawner =
  direction :: Direction
  spawn_pos :: "real \<times> real"
  interval_range :: "int \<times> int"
  next_spawn_ms :: int

subsection \<open>Car\<close>

record Vector2 =
  x :: real
  y :: real

record Car =
  direction :: Direction
  position :: Vector2
  speed :: real
  length_car :: int
  width :: int

text \<open>
  The dataclass constructor \<^verbatim>\<open>Car(direction, pygame.Vector2(p))\<close> with the default
  \<^verbatim>\<open>speed\<close>, \<^verbatim>\<open>length\<close> and \<^verbatim>\<open>width\<close>.
\<close>

definition Car_new :: "Direction \<Rightarrow> real \<times> real \<Rightarrow> Car" where
  "Car_new d p =
     \<lparr>direction = d, position = \<lparr>x = fst p, y = snd p\<rparr>,
      speed = 120, length_car = 25, width = 15\<rparr>"

text \<open>
  Equality as \<^verbatim>\<open>==\<close> computes it. \<^verbatim>\<open>pygame.Vector2\<close> compares each coordinate up
  to its \<^verbatim>\<open>epsilon\<close>, one millionth by default: two vectors are equal when no
  coordinate differs by that much or more. The dataclass \<^verbatim>\<open>Car\<close> compares the tuples
  of its fields.
\<close>

definition VECTOR_EPSILON :: real where
  "VECTOR_EPSILON = 1 / 1000000"

definition Vector2_eq :: "Vector2 \<Rightarrow> Vector2 \<Rightarrow> bool" where
  "Vector2_eq p q =
     (\<not> \<bar>x p - x q\<bar> \<ge> VECTOR_EPSILON \<and> \<not> \<bar>y p - y q\<bar> \<ge> VECTOR_EPSILON)"

definition Car_eq :: "Car \<Rightarrow> Car \<Rightarrow> bool" where
  "Car_eq a b =
     (direction a = direction b \<and> Vector2_eq (position a) (position b) \<and>
      speed a = speed b \<and> length_car a = length_car b \<and> width a = width b)"

text \<open>
  One round of the loop \<^verbatim>\<open>for luz in luces\<close> of \<^verbatim>\<open>Car.update\<close>, on the pending
  displacement \<open>(dx, dy)\<close>. The stop lines are the source's locals
  \<^verbatim>\<open>stop_line_y = ALTO_PANTALLA / 2 - 40\<close> and \<^verbatim>\<open>stop_line_x = ANCHO_PANTALLA / 2 - 40\<close>.
\<close>

definition stop_line_y :: real where
  "stop_line_y = real_of_int ALTO_PANTALLA / 2 - 40"

definition stop_line_x :: real where
  "stop_line_x = real_of_int ANCHO_PANTALLA / 2 - 40"

definition brake :: "Car \<Rightarrow> TrafficLight \<Rightarrow> real \<times> real \<Rightarrow> real \<times> real" where
  "brake c luz d =
     (let dx = fst d; dy = snd d; half = real_of_int (length_car c) / 2 in
      if \<not> is_green_for luz (direction c) then
        if direction c = NORTE \<and> y (position c) - half \<le> stop_line_y then
          (if y (position c) - half > stop_line_y - 5 then (dx, 0) else (dx, dy))
        else if direction c = SUR \<and> y (position c) + half \<ge> stop_line_y + 80 then
          (if y (position c) + half < stop_line_y + 85 then (dx, 0) else (dx, dy))
        else if direction c = OESTE \<and> x (position c) - half \<le> stop_line_x then
          (if x (position c) - half > stop_line_x - 5 then (0, dy) else (dx, dy))
        else if direction c = ESTE \<and> x (position c) + half \<ge> stop_line_x + 80 then
          (if x (position c) + half < stop_line_x + 85 then (0, dy) else (dx, dy))
        else (dx, dy)
      else (dx, dy))"

fun braking :: "Car \<Rightarrow> TrafficLight list \<Rightarrow> real \<times> real \<Rightarrow> real \<times> real" where
  "braking c [] d = d"
| "braking c (luz # luces) d = braking c luces (brake c luz d)"

text \<open>The displacement \<^verbatim>\<open>Car.update\<close> starts from, by direction.\<close>

definition intended :: "Car \<Rightarrow> real \<Rightarrow> real \<times> real" where
  "intended c dt =
     (if direction c = NORTE then (0, - speed c * dt)
      else if direction c = SUR then (0, speed c * dt)
      else if direction c = ESTE then (speed c * dt, 0)
      else if direction c = OESTE then (- speed c * dt, 0)
      else (0, 0))"

text \<open>\<^verbatim>\<open>Car.update\<close>: the object after the call.\<close>

definition Car_update :: "real \<Rightarrow> TrafficLight list \<Rightarrow> Car \<Rightarrow> Car" where
  "Car_update dt luces c =
     (let d = braking c luces (intended c dt) in
      c\<lparr>position := \<lparr>x = x (position c) + fst d, y = y (position c) + snd d\<rparr>\<rparr>)"

text \<open>\<^verbatim>\<open>Car.is_off_screen\<close>.\<close>

definition is_off_screen :: "Car \<Rightarrow> bool" where
  "is_off_screen c =
     (x (position c) < - 50 \<or> x (position c) > real_of_int ANCHO_PANTALLA + 50 \<or>
      y (position c) < - 50 \<or> y (position c) > real_of_int ALTO_PANTALLA + 50)"

subsection \<open>The store of Car objects and the random source\<close>

type_synonym ref = nat

record Heap =
  objs :: "ref \<Rightarrow> Car"
  next_ref :: ref

text \<open>Constructing a \<^verbatim>\<open>Car\<close>: a reference no live object has.\<close>

definition new_Car :: "Car \<Rightarrow> Heap \<Rightarrow> ref \<times> Heap" where
  "new_Car c h = (next_ref h, h\<lparr>objs := (objs h)(next_ref h := c), next_ref := Suc (next_ref h)\<rparr>)"

text \<open>
  The random source is the sequence of raw numbers the generator gives next; a call takes
  the first and leaves the rest. \<^verbatim>\<open>random.randint(a, b)\<close> is
  \<^verbatim>\<open>a + _randbelow(b - a + 1)\<close> when \<open>b - a + 1\<close> is positive and raises
  \<^verbatim>\<open>ValueError\<close> otherwise; \<^verbatim>\<open>_randbelow(n)\<close> turns the generator's output into a number
  below \<open>n\<close>, each as likely as the other. Here it is the raw number modulo \<open>n\<close>, and
  \<open>draw a b r\<close> is the value \<^verbatim>\<open>randint(a, b)\<close> returns on the raw number \<open>r\<close>.
\<close>

type_synonym rng = "nat \<Rightarrow> nat"

definition draw :: "int \<Rightarrow> int \<Rightarrow> nat \<Rightarrow> int" where
  "draw a b r = a + int (r mod nat (b - a + 1))"

definition randint :: "int \<Rightarrow> int \<Rightarrow> rng \<Rightarrow> (int \<times> rng) option" where
  "randint a b g =
     (if b - a + 1 \<le> 0 then None
      else Some (draw a b (g 0), \<lambda>n. g (Suc n)))"

subsection \<open>Spawner: the update\<close>

text \<open>
  \<^verbatim>\<open>Spawner.update\<close>, on the spawner, the list \<^verbatim>\<open>cars\<close>, the store and the random
  source. The car is appended before \<^verbatim>\<open>random.randint\<close> is called.
\<close>

definition Spawner_update ::
  "int \<Rightarrow> Spawner \<times> ref list \<times> Heap \<times> rng \<Rightarrow> (Spawner \<times> ref list \<times> Heap \<times> rng) option" where
  "Spawner_update current_ms = (\<lambda>(sp, cs, h, g).
     if current_ms \<ge> next_spawn_ms sp then
       (let (r, h') = new_Car (Car_new (Spawner.direction sp) (spawn_pos sp)) h;
            cs' = cs @ [r]
        in case randint (fst (interval_range sp)) (snd (interval_range sp)) g of
             None \<Rightarrow> None
           | Some (u, g') \<Rightarrow> Some (sp\<lparr>next_spawn_ms := current_ms + u\<rparr>, cs', h', g'))
     else Some (sp, cs, h, g))"

subsection \<open>Simulation\<close>

record Simulation =
  traffic_light_ns :: TrafficLight
  traffic_light_ew :: TrafficLight
  cars :: "ref list"
  spawners :: "Spawner list"

text \<open>\<^verbatim>\<open>Spawner.__init__\<close> with the default interval, the state \<^verbatim>\<open>Simulation.__init__\<close>
  builds, and the empty store.\<close>

definition Spawner_new :: "Direction \<Rightarrow> real \<times> real \<Rightarrow> Spawner" where
  "Spawner_new d p =
     \<lparr>Spawner.direction = d, spawn_pos = p, interval_range = (1500, 4000), next_spawn_ms = 0\<rparr>"

definition Simulation_init :: Simulation where
  "Simulation_init =
     \<lparr>traffic_light_ns =
        (TrafficLight_new
           (real_of_int ANCHO_PANTALLA / 2 - 60, real_of_int ALTO_PANTALLA / 2 - 60) NORTE)
        \<lparr>last_change_ms := 0\<rparr>,
      traffic_light_ew =
        (TrafficLight_new
           (real_of_int ANCHO_PANTALLA / 2 + 20, real_of_int ALTO_PANTALLA / 2 - 60) ESTE)
        \<lparr>state := ROJO, last_change_ms := 0\<rparr>,
      cars = [],
      spawners =
        [Spawner_new SUR (real_of_int ANCHO_PANTALLA / 2 - 20, - 30),
         Spawner_new NORTE (real_of_int ANCHO_PANTALLA / 2 + 20, real_of_int ALTO_PANTALLA + 30),
         Spawner_new ESTE (- 30, real_of_int ALTO_PANTALLA / 2 + 20),
         Spawner_new OESTE (real_of_int ANCHO_PANTALLA + 30, real_of_int ALTO_PANTALLA / 2 - 20)]\<rparr>"

text \<open>Before the first spawn no \<^verbatim>\<open>Car\<close> exists; what the store holds there is never read.\<close>

definition Heap_init :: Heap where
  "Heap_init = \<lparr>objs = (\<lambda>r. Car_new NORTE (0, 0)), next_ref = 0\<rparr>"

text \<open>
  The first block of \<^verbatim>\<open>Simulation.update\<close>: the leader runs its timer; the follower
  runs its own only while the leader is red, and is forced to red otherwise. The local
  \<^verbatim>\<open>ciclo_ns\<close> is computed and never read, so it is left out.
\<close>

definition update_lights :: "int \<Rightarrow> TrafficLight \<times> TrafficLight \<Rightarrow> TrafficLight \<times> TrafficLight" where
  "update_lights current_ms = (\<lambda>(ns, ew).
     let ns' = TrafficLight_update current_ms ns in
     if state ns' = ROJO then (ns', TrafficLight_update current_ms ew)
     else (ns', ew\<lparr>state := ROJO, last_change_ms := current_ms\<rparr>))"

text \<open>The second block: \<^verbatim>\<open>for spawner in self.spawners: spawner.update(current_ms, self.cars)\<close>.\<close>

fun spawners_loop ::
  "int \<Rightarrow> Spawner list \<Rightarrow> ref list \<times> Heap \<times> rng \<Rightarrow>
     (Spawner list \<times> ref list \<times> Heap \<times> rng) option" where
  "spawners_loop current_ms [] (cs, h, g) = Some ([], cs, h, g)"
| "spawners_loop current_ms (sp # sps) (cs, h, g) =
     (case Spawner_update current_ms (sp, cs, h, g) of
        None \<Rightarrow> None
      | Some (sp', cs', h', g') \<Rightarrow>
          (case spawners_loop current_ms sps (cs', h', g') of
             None \<Rightarrow> None
           | Some (sps', cs'', h'', g'') \<Rightarrow> Some (sp' # sps', cs'', h'', g'')))"

text \<open>
  \<^verbatim>\<open>list.remove(car)\<close>: drops the first element that is \<^verbatim>\<open>car\<close> or that \<^verbatim>\<open>==\<close>
  finds equal to it; \<open>None\<close> is the \<^verbatim>\<open>ValueError\<close> of a list with no such element.
\<close>

fun list_remove :: "Heap \<Rightarrow> ref \<Rightarrow> ref list \<Rightarrow> ref list option" where
  "list_remove h r [] = None"
| "list_remove h r (e # es) =
     (if e = r \<or> Car_eq (objs h e) (objs h r) then Some es
      else map_option ((#) e) (list_remove h r es))"

text \<open>
  The third block: \<^verbatim>\<open>for car in list(self.cars)\<close>. The first list is the copy being
  walked, the pair is \<^verbatim>\<open>self.cars\<close> and the store.
\<close>

fun cars_loop ::
  "real \<Rightarrow> TrafficLight list \<Rightarrow> ref list \<Rightarrow> ref list \<times> Heap \<Rightarrow> (ref list \<times> Heap) option" where
  "cars_loop dt luces [] (cs, h) = Some (cs, h)"
| "cars_loop dt luces (r # rs) (cs, h) =
     (let h' = h\<lparr>objs := (objs h)(r := Car_update dt luces (objs h r))\<rparr> in
      if is_off_screen (objs h' r) then
        (case list_remove h' r cs of
           None \<Rightarrow> None
         | Some cs' \<Rightarrow> cars_loop dt luces rs (cs', h'))
      else cars_loop dt luces rs (cs, h'))"

text \<open>\<^verbatim>\<open>Simulation.update\<close>.\<close>

definition Simulation_update ::
  "real \<Rightarrow> int \<Rightarrow> Simulation \<times> Heap \<times> rng \<Rightarrow> (Simulation \<times> Heap \<times> rng) option" where
  "Simulation_update dt current_ms = (\<lambda>(s, h, g).
     case update_lights current_ms (traffic_light_ns s, traffic_light_ew s) of
       (ns, ew) \<Rightarrow>
         (case spawners_loop current_ms (spawners s) (cars s, h, g) of
            None \<Rightarrow> None
          | Some (sps, cs, h1, g1) \<Rightarrow>
              (case cars_loop dt [ns, ew] cs (cs, h1) of
                 None \<Rightarrow> None
               | Some (cs', h') \<Rightarrow>
                   Some (s\<lparr>traffic_light_ns := ns, traffic_light_ew := ew,
                            cars := cs', spawners := sps\<rparr>, h', g1))))"

subsection \<open>The frame loop\<close>

text \<open>
  \<^verbatim>\<open>Simulation.run\<close> calls \<^verbatim>\<open>update(dt, current_ms)\<close> once per frame that is not
  paused; a run is the list of those frames.
\<close>

fun run ::
  "(real \<times> int) list \<Rightarrow> Simulation \<times> Heap \<times> rng \<Rightarrow> (Simulation \<times> Heap \<times> rng) option" where
  "run [] w = Some w"
| "run ((dt, current_ms) # frames) w =
     (case Simulation_update dt current_ms w of
        None \<Rightarrow> None
      | Some w' \<Rightarrow> run frames w')"

text \<open>A light called at the times of a list, and the two lights stepped at the times of a list.\<close>

definition advance :: "int list \<Rightarrow> TrafficLight \<Rightarrow> TrafficLight" where
  "advance ts l = foldl (\<lambda>l' t. TrafficLight_update t l') l ts"

definition lights_after :: "int list \<Rightarrow> TrafficLight \<times> TrafficLight" where
  "lights_after ts =
     foldl (\<lambda>p t. update_lights t p)
       (traffic_light_ns Simulation_init, traffic_light_ew Simulation_init) ts"

section \<open>The properties, as predicates\<close>

text \<open>Not both lights off red.\<close>

definition mutual_exclusion :: "Simulation \<Rightarrow> bool" where
  "mutual_exclusion s =
     (\<not> (state (traffic_light_ns s) \<noteq> ROJO \<and> state (traffic_light_ew s) \<noteq> ROJO))"

text \<open>The cycle Green, Yellow, Red, Green and the time each phase lasts.\<close>

definition next_state :: "LightState \<Rightarrow> LightState" where
  "next_state p = (case p of VERDE \<Rightarrow> AMARILLO | AMARILLO \<Rightarrow> ROJO | ROJO \<Rightarrow> VERDE)"

definition phase_duration :: "LightState \<Rightarrow> int" where
  "phase_duration p = (case p of VERDE \<Rightarrow> 6000 | AMARILLO \<Rightarrow> 2000 | ROJO \<Rightarrow> 8000)"

text \<open>
  What Python guarantees of \<^verbatim>\<open>self.cars\<close>: every element is an object of its own,
  and a new object is none of them. And what \<^verbatim>\<open>random.randint\<close> needs of the
  spawners: no interval is empty.
\<close>

definition well_formed :: "Simulation \<Rightarrow> Heap \<Rightarrow> bool" where
  "well_formed s h = (distinct (cars s) \<and> list_all (\<lambda>r. r < next_ref h) (cars s))"

definition spawners_ok :: "Spawner list \<Rightarrow> bool" where
  "spawners_ok sps = list_all (\<lambda>sp. fst (interval_range sp) \<le> snd (interval_range sp)) sps"

text \<open>
  No car of the list that is on the screen after its move is \<^verbatim>\<open>==\<close> to another that is
  off the screen after its move.
\<close>

definition no_lookalike :: "real \<Rightarrow> TrafficLight list \<Rightarrow> ref list \<Rightarrow> Heap \<Rightarrow> bool" where
  "no_lookalike dt luces rs h =
     list_all (\<lambda>e. list_all (\<lambda>r.
        e = r \<or> is_off_screen (Car_update dt luces (objs h e)) \<or>
        \<not> is_off_screen (Car_update dt luces (objs h r)) \<or>
        \<not> Car_eq (Car_update dt luces (objs h e)) (Car_update dt luces (objs h r))) rs) rs"



text \<open>The position lies more than \<open>m\<close> units outside the screen, on some side.\<close>

definition outside_by_more_than :: "real \<Rightarrow> Car \<Rightarrow> bool" where
  "outside_by_more_than m c =
     (0 - x (position c) > m \<or> x (position c) - real_of_int ANCHO_PANTALLA > m \<or>
      0 - y (position c) > m \<or> y (position c) - real_of_int ALTO_PANTALLA > m)"

text \<open>The store in which each object of a list has had \<^verbatim>\<open>Car.update\<close> once, and no other.\<close>

definition moved :: "real \<Rightarrow> TrafficLight list \<Rightarrow> ref list \<Rightarrow> Heap \<Rightarrow> Heap" where
  "moved dt luces rs h =
     h\<lparr>objs := (\<lambda>r. if r \<in> set rs then Car_update dt luces (objs h r) else objs h r)\<rparr>"

text \<open>
  \<^verbatim>\<open>Car.rect\<close> as (left, top, width, height), and the square where the two roads of
  \<^verbatim>\<open>draw_roads\<close> cross: 80 wide from \<^verbatim>\<open>ANCHO_PANTALLA/2 - 40\<close>, 80 high from
  \<^verbatim>\<open>ALTO_PANTALLA/2 - 40\<close>.
\<close>

definition rect :: "Car \<Rightarrow> real \<times> real \<times> real \<times> real" where
  "rect c =
     (if direction c \<in> {NORTE, SUR} then
        (x (position c) - real_of_int (width c) / 2,
         y (position c) - real_of_int (length_car c) / 2,
         real_of_int (width c), real_of_int (length_car c))
      else
        (x (position c) - real_of_int (length_car c) / 2,
         y (position c) - real_of_int (width c) / 2,
         real_of_int (length_car c), real_of_int (width c)))"

definition inside_intersection :: "Car \<Rightarrow> bool" where
  "inside_intersection c =
     (case rect c of (rx, ry, rw, rh) \<Rightarrow>
        real_of_int ANCHO_PANTALLA / 2 - 40 \<le> rx \<and>
        rx + rw \<le> real_of_int ANCHO_PANTALLA / 2 - 40 + 80 \<and>
        real_of_int ALTO_PANTALLA / 2 - 40 \<le> ry \<and>
        ry + rh \<le> real_of_int ALTO_PANTALLA / 2 - 40 + 80)"

text \<open>
  The front of a car in its direction of travel, and the band in which \<^verbatim>\<open>Car.update\<close>
  zeroes the displacement, as its comparisons with the stop lines have it.
\<close>

definition leading_edge :: "Car \<Rightarrow> real" where
  "leading_edge c =
     (case direction c of
        NORTE \<Rightarrow> y (position c) - real_of_int (length_car c) / 2
      | SUR \<Rightarrow> y (position c) + real_of_int (length_car c) / 2
      | OESTE \<Rightarrow> x (position c) - real_of_int (length_car c) / 2
      | ESTE \<Rightarrow> x (position c) + real_of_int (length_car c) / 2)"

definition in_band :: "Car \<Rightarrow> bool" where
  "in_band c =
     (case direction c of
        NORTE \<Rightarrow> stop_line_y - 5 < leading_edge c \<and> leading_edge c \<le> stop_line_y
      | SUR \<Rightarrow> stop_line_y + 80 \<le> leading_edge c \<and> leading_edge c < stop_line_y + 85
      | OESTE \<Rightarrow> stop_line_x - 5 < leading_edge c \<and> leading_edge c \<le> stop_line_x
      | ESTE \<Rightarrow> stop_line_x + 80 \<le> leading_edge c \<and> leading_edge c < stop_line_x + 85)"



section \<open>The light state machine\<close>

lemma TrafficLight_update_table:
  "TrafficLight_update now l =
     (if now - last_change_ms l \<ge> phase_duration (state l)
      then l\<lparr>state := next_state (state l), last_change_ms := now\<rparr> else l)"
  by (cases "state l")
     (simp_all add: TrafficLight_update_def phase_duration_def next_state_def
        TIEMPO_VERDE_def TIEMPO_AMARILLO_def Let_def)

lemma advance_idle:
  "list_all (\<lambda>t. t - last_change_ms l < phase_duration (state l)) ts \<Longrightarrow> advance ts l = l"
  by (induction ts) (simp_all add: advance_def TrafficLight_update_table)


text \<open>
  Claim C6 (at most one transition per call). A call of \<^verbatim>\<open>TrafficLight.update\<close> leaves
  the light as it is or moves it to the next phase of the cycle with its clock set to the
  current time; it moves exactly when the time in the phase has reached the phase's
  duration (6000, 2000, 8000 ms). A green light called 16000 ms late, past all three
  thresholds, is only yellow afterwards.
\<close>

theorem C6_single_transition:
  "(TrafficLight_update now l = l \<or>
    TrafficLight_update now l = l\<lparr>state := next_state (state l), last_change_ms := now\<rparr>) \<and>
   TrafficLight_update now l =
     (if now - last_change_ms l \<ge> phase_duration (state l)
      then l\<lparr>state := next_state (state l), last_change_ms := now\<rparr> else l) \<and>
   state (TrafficLight_update (last_change_ms l + 16000) (l\<lparr>state := VERDE\<rparr>)) = AMARILLO"
  using TrafficLight_update_table [of now l]
    TrafficLight_update_table [of "last_change_ms l + 16000" "l\<lparr>state := VERDE\<rparr>"]
  by (simp add: phase_duration_def next_state_def)

section \<open>The two lights together\<close>

lemma update_lights_exclusive:
  "update_lights now (ns, ew) = (ns', ew') \<Longrightarrow> state ns' = ROJO \<or> state ew' = ROJO"
  by (auto simp: update_lights_def Let_def split: if_splits)

lemma Simulation_update_lights:
  assumes "Simulation_update dt now (s, h, g) = Some (s', h', g')"
  shows "update_lights now (traffic_light_ns s, traffic_light_ew s) =
           (traffic_light_ns s', traffic_light_ew s')"
  using assms by (auto simp: Simulation_update_def split: prod.splits option.splits)

lemma Simulation_update_exclusive:
  assumes "Simulation_update dt now (s, h, g) = Some (s', h', g')"
  shows "mutual_exclusion s'"
  using update_lights_exclusive [OF Simulation_update_lights [OF assms]]
  by (auto simp: mutual_exclusion_def)

lemma init_exclusive: "mutual_exclusion Simulation_init"
  by (simp add: mutual_exclusion_def Simulation_init_def TrafficLight_new_def)

lemma run_exclusive:
  "mutual_exclusion s \<Longrightarrow> run frames (s, h, g) = Some (s', h', g') \<Longrightarrow> mutual_exclusion s'"
proof (induction frames arbitrary: s h g)
  case Nil
  then show ?case by simp
next
  case (Cons f frames)
  obtain dt now where f: "f = (dt, now)" by (cases f)
  from Cons.prems(2) f obtain w where
    step: "Simulation_update dt now (s, h, g) = Some w" and
    rest: "run frames w = Some (s', h', g')"
    by (auto split: option.splits)
  obtain s1 h1 g1 where w: "w = (s1, h1, g1)" by (cases w)
  from step w have "mutual_exclusion s1" by (auto dest: Simulation_update_exclusive)
  with rest w show ?case using Cons.IH by blast
qed

section \<open>The random draw and the spawners\<close>

lemma draw_range: "a \<le> b \<Longrightarrow> a \<le> draw a b r \<and> draw a b r \<le> b"
proof -
  assume ab: "a \<le> b"
  then have pos: "0 < nat (b - a + 1)" by simp
  have "r mod nat (b - a + 1) < nat (b - a + 1)" using pos by (rule mod_less_divisor)
  then have "int (r mod nat (b - a + 1)) < b - a + 1" using ab by linarith
  then show ?thesis by (simp add: draw_def)
qed

text \<open>
  The draw spreads evenly: of the \<open>b - a + 1\<close> raw numbers of a block, each gives a value
  of the range of its own, all values of the range are given, and the next block repeats.
\<close>

lemma draw_bij:
  assumes "a \<le> b"
  shows "bij_betw (draw a b) {..<nat (b - a + 1)} {a..b}"
proof (rule bij_betw_byWitness [where f' = "\<lambda>u. nat (u - a)"])
  show "\<forall>r\<in>{..<nat (b - a + 1)}. nat (draw a b r - a) = r"
    by (simp add: draw_def)
  show "\<forall>u\<in>{a..b}. draw a b (nat (u - a)) = u"
    using assms by (auto simp: draw_def)
  show "draw a b ` {..<nat (b - a + 1)} \<subseteq> {a..b}"
    using draw_range [OF assms] by auto
  show "(\<lambda>u. nat (u - a)) ` {a..b} \<subseteq> {..<nat (b - a + 1)}"
    using assms by auto
qed

lemma draw_period: "draw a b (r + nat (b - a + 1)) = draw a b r"
  by (simp add: draw_def)

lemma Spawner_update_empty_range:
  assumes "snd (interval_range sp) < fst (interval_range sp)" and "next_spawn_ms sp \<le> now"
  shows "Spawner_update now (sp, cs, h, g) = None"
  using assms by (simp add: Spawner_update_def randint_def new_Car_def)

lemma Spawner_update_some:
  assumes "fst (interval_range sp) \<le> snd (interval_range sp)"
  shows "\<exists>sp' cs' h' g'. Spawner_update now (sp, cs, h, g) = Some (sp', cs', h', g') \<and>
           interval_range sp' = interval_range sp"
  using assms by (simp add: Spawner_update_def randint_def new_Car_def)

lemma spawners_loop_some:
  assumes "spawners_ok sps"
  shows "\<exists>sps' cs' h' g'. spawners_loop now sps (cs, h, g) = Some (sps', cs', h', g') \<and>
           spawners_ok sps'"
  using assms
proof (induction sps arbitrary: cs h g)
  case Nil
  then show ?case by (simp add: spawners_ok_def)
next
  case (Cons sp sps)
  from Cons.prems have one: "fst (interval_range sp) \<le> snd (interval_range sp)"
    and rest: "spawners_ok sps"
    by (simp_all add: spawners_ok_def)
  from Spawner_update_some [OF one] obtain sp1 cs1 h1 g1 where
    s1: "Spawner_update now (sp, cs, h, g) = Some (sp1, cs1, h1, g1)"
    and r1: "interval_range sp1 = interval_range sp"
    by blast
  from Cons.IH [OF rest] obtain sps2 cs2 h2 g2 where
    s2: "spawners_loop now sps (cs1, h1, g1) = Some (sps2, cs2, h2, g2)"
    and r2: "spawners_ok sps2"
    by blast
  from s1 s2 r1 r2 one show ?case by (simp add: spawners_ok_def)
qed

lemma Spawner_update_wf:
  assumes "Spawner_update now (sp, cs, h, g) = Some (sp', cs', h', g')"
    and "distinct cs" and "list_all (\<lambda>r. r < next_ref h) cs"
  shows "distinct cs' \<and> list_all (\<lambda>r. r < next_ref h') cs'"
  using assms
  by (auto simp: Spawner_update_def new_Car_def randint_def list_all_iff less_Suc_eq
      split: if_splits)

lemma spawners_loop_wf:
  assumes "spawners_loop now sps (cs, h, g) = Some (sps', cs', h', g')"
    and "distinct cs" and "list_all (\<lambda>r. r < next_ref h) cs"
  shows "distinct cs' \<and> list_all (\<lambda>r. r < next_ref h') cs'"
  using assms
proof (induction sps arbitrary: cs h g sps')
  case Nil
  then show ?case by simp
next
  case (Cons sp sps)
  from Cons.prems(1) obtain sp1 cs1 h1 g1 sps2 where
    one: "Spawner_update now (sp, cs, h, g) = Some (sp1, cs1, h1, g1)" and
    rest: "spawners_loop now sps (cs1, h1, g1) = Some (sps2, cs', h', g')"
    by (auto split: option.splits prod.splits)
  from Spawner_update_wf [OF one Cons.prems(2,3)]
  show ?case using Cons.IH [OF rest] by blast
qed

section \<open>The pass over the cars\<close>

text \<open>
  \<^verbatim>\<open>list.remove\<close> finds the car it is given, or one before it: the cars after it stay,
  so the pass never fails to find the car it is at.
\<close>

lemma list_remove_keeps_rest:
  "\<exists>pre'. list_remove h r (pre @ r # rs) = Some (pre' @ rs)"
proof (induction pre)
  case Nil
  show ?case by simp
next
  case (Cons e pre)
  then obtain pre' where ih: "list_remove h r (pre @ r # rs) = Some (pre' @ rs)" by blast
  show ?case
  proof (cases "e = r \<or> Car_eq (objs h e) (objs h r)")
    case True
    then have "list_remove h r ((e # pre) @ r # rs) = Some ((pre @ [r]) @ rs)" by simp
    then show ?thesis by blast
  next
    case False
    with ih have "list_remove h r ((e # pre) @ r # rs) = Some ((e # pre') @ rs)" by simp
    then show ?thesis by blast
  qed
qed

lemma cars_loop_some: "\<exists>res. cars_loop dt luces rs (pre @ rs, h) = Some res"
proof (induction rs arbitrary: pre h)
  case Nil
  show ?case by simp
next
  case (Cons r rs)
  define h' where "h' = h\<lparr>objs := (objs h)(r := Car_update dt luces (objs h r))\<rparr>"
  show ?case
  proof (cases "is_off_screen (objs h' r)")
    case True
    from list_remove_keeps_rest obtain pre' where
      "list_remove h' r (pre @ r # rs) = Some (pre' @ rs)" by blast
    with True Cons.IH [of pre' h'] show ?thesis
      by (simp add: h'_def [symmetric] Let_def)
  next
    case False
    with Cons.IH [of "pre @ [r]" h'] show ?thesis
      by (simp add: h'_def [symmetric] Let_def)
  qed
qed

text \<open>A step raises only where \<^verbatim>\<open>random.randint\<close> does: with no empty interval it returns.\<close>

lemma Simulation_update_total:
  assumes "spawners_ok (spawners s)"
  shows "\<exists>s' h' g'. Simulation_update dt now (s, h, g) = Some (s', h', g') \<and>
           spawners_ok (spawners s')"
proof -
  from spawners_loop_some [OF assms] obtain sps cs1 h1 g1 where
    sp: "spawners_loop now (spawners s) (cars s, h, g) = Some (sps, cs1, h1, g1)"
    and ok: "spawners_ok sps"
    by blast
  obtain ns ew where
    li: "update_lights now (traffic_light_ns s, traffic_light_ew s) = (ns, ew)"
    by (metis surj_pair)
  from cars_loop_some [of dt "[ns, ew]" cs1 "[]" h1] obtain cs' h' where
    "cars_loop dt [ns, ew] cs1 (cs1, h1) = Some (cs', h')"
    by auto
  with sp li ok show ?thesis by (simp add: Simulation_update_def)
qed

lemma run_total:
  assumes "spawners_ok (spawners s)"
  shows "\<exists>w. run frames (s, h, g) = Some w"
  using assms
proof (induction frames arbitrary: s h g)
  case Nil
  show ?case by simp
next
  case (Cons f frames)
  obtain dt now where f: "f = (dt, now)" by (cases f)
  from Simulation_update_total [OF Cons.prems] obtain s' h' g' where
    "Simulation_update dt now (s, h, g) = Some (s', h', g')" and "spawners_ok (spawners s')"
    by blast
  with Cons.IH [of s' h' g'] f show ?case by simp
qed

lemma init_spawners_ok: "spawners_ok (spawners Simulation_init)"
  by (simp add: spawners_ok_def Simulation_init_def Spawner_new_def)

text \<open>
  The pass in closed form, where no car that stays looks like one that leaves. \<open>kept\<close> are
  the cars already walked and still listed, \<open>rs\<close> the cars still to walk.
\<close>

lemma list_remove_hit:
  "\<forall>e\<in>set kept. e \<noteq> r \<and> \<not> Car_eq (objs h e) (objs h r) \<Longrightarrow>
   list_remove h r (kept @ r # rs) = Some (kept @ rs)"
  by (induction kept) auto

lemma cars_loop_closed:
  assumes "distinct (kept @ rs)"
    and "\<forall>e\<in>set kept. \<forall>r\<in>set rs. is_off_screen (Car_update dt luces (objs h r)) \<longrightarrow>
           \<not> Car_eq (objs h e) (Car_update dt luces (objs h r))"
    and "no_lookalike dt luces rs h"
  shows "cars_loop dt luces rs (kept @ rs, h) =
           Some (kept @ filter (\<lambda>r. \<not> is_off_screen (Car_update dt luces (objs h r))) rs,
                 moved dt luces rs h)"
  using assms
proof (induction rs arbitrary: kept h)
  case Nil
  then show ?case by (simp add: moved_def)
next
  case (Cons r rs)
  let ?U = "\<lambda>k q. Car_update dt luces (objs k q)"
  define h' where "h' = h\<lparr>objs := (objs h)(r := ?U h r)\<rparr>"
  have r_new: "objs h' r = ?U h r" by (simp add: h'_def)
  have others: "objs h' q = objs h q" if "q \<noteq> r" for q using that by (simp add: h'_def)
  have r_notin: "r \<notin> set kept" "r \<notin> set rs" using Cons.prems(1) by auto
  have same: "?U h' q = ?U h q" if "q \<in> set rs" for q
    using that r_notin others by metis
  have filt: "filter (\<lambda>q. \<not> is_off_screen (?U h' q)) rs =
              filter (\<lambda>q. \<not> is_off_screen (?U h q)) rs"
    by (rule filter_cong) (simp_all add: same)
  have mv: "moved dt luces rs h' = moved dt luces (r # rs) h"
    using r_notin by (auto simp: moved_def h'_def fun_eq_iff)
  have look: "\<forall>e\<in>set (r # rs). \<forall>q\<in>set (r # rs).
                e = q \<or> is_off_screen (?U h e) \<or> \<not> is_off_screen (?U h q) \<or>
                \<not> Car_eq (?U h e) (?U h q)"
    using Cons.prems(3) by (simp add: no_lookalike_def list_all_iff)
  have look': "no_lookalike dt luces rs h'"
    unfolding no_lookalike_def list_all_iff
  proof (intro ballI)
    fix e q assume "e \<in> set rs" "q \<in> set rs"
    with look same show "e = q \<or> is_off_screen (?U h' e) \<or> \<not> is_off_screen (?U h' q) \<or>
                \<not> Car_eq (?U h' e) (?U h' q)"
      by simp
  qed
  have keptK: "\<forall>e\<in>set kept. \<forall>q\<in>set rs. is_off_screen (?U h' q) \<longrightarrow>
                 \<not> Car_eq (objs h' e) (?U h' q)"
  proof (intro ballI impI)
    fix e q assume e: "e \<in> set kept" and q: "q \<in> set rs" and off: "is_off_screen (?U h' q)"
    from e r_notin have "objs h' e = objs h e" by (metis others)
    with Cons.prems(2) e q off same [OF q] show "\<not> Car_eq (objs h' e) (?U h' q)" by simp
  qed
  show ?case
  proof (cases "is_off_screen (?U h r)")
    case True
    have "\<forall>e\<in>set kept. e \<noteq> r \<and> \<not> Car_eq (objs h' e) (objs h' r)"
    proof
      fix e assume e: "e \<in> set kept"
      with r_notin have ne: "e \<noteq> r" by auto
      with others have "objs h' e = objs h e" by simp
      with Cons.prems(2) e True r_new ne show "e \<noteq> r \<and> \<not> Car_eq (objs h' e) (objs h' r)"
        by simp
    qed
    then have rem: "list_remove h' r (kept @ r # rs) = Some (kept @ rs)"
      by (rule list_remove_hit)
    have "distinct (kept @ rs)" using Cons.prems(1) by simp
    from Cons.IH [OF this keptK look'] have
      "cars_loop dt luces rs (kept @ rs, h') =
         Some (kept @ filter (\<lambda>q. \<not> is_off_screen (?U h q)) rs, moved dt luces (r # rs) h)"
      by (simp add: filt mv)
    with True rem r_new show ?thesis
      by (simp add: h'_def [symmetric] Let_def)
  next
    case False
    have d: "distinct ((kept @ [r]) @ rs)" using Cons.prems(1) by simp
    have k: "\<forall>e\<in>set (kept @ [r]). \<forall>q\<in>set rs. is_off_screen (?U h' q) \<longrightarrow>
               \<not> Car_eq (objs h' e) (?U h' q)"
    proof (intro ballI impI)
      fix e q assume e: "e \<in> set (kept @ [r])" and q: "q \<in> set rs"
        and off: "is_off_screen (?U h' q)"
      show "\<not> Car_eq (objs h' e) (?U h' q)"
      proof (cases "e = r")
        case True
        from q r_notin have "r \<noteq> q" by auto
        with look q False off same [OF q] have "\<not> Car_eq (?U h r) (?U h q)" by auto
        with True r_new same [OF q] show ?thesis by simp
      next
        case False
        with e have "e \<in> set kept" by simp
        with keptK q off show ?thesis by blast
      qed
    qed
    from Cons.IH [OF d k look'] have
      "cars_loop dt luces rs (kept @ r # rs, h') =
         Some (kept @ r # filter (\<lambda>q. \<not> is_off_screen (?U h q)) rs,
               moved dt luces (r # rs) h)"
      by (simp add: filt mv)
    with False r_new show ?thesis
      by (simp add: h'_def [symmetric] Let_def)
  qed
qed

text \<open>
  So a step on a well-formed state in which no car that stays looks like one that leaves
  updates each listed car exactly once and lists afterwards exactly the cars that are on
  the screen after their move.
\<close>

lemma culling_without_lookalikes:
  assumes wf: "well_formed s h"
    and sp: "spawners_loop now (spawners s) (cars s, h, g) = Some (sps, cs1, h1, g1)"
    and li: "update_lights now (traffic_light_ns s, traffic_light_ew s) = (ns, ew)"
    and look: "no_lookalike dt [ns, ew] cs1 h1"
  shows "Simulation_update dt now (s, h, g) =
           Some (s\<lparr>traffic_light_ns := ns, traffic_light_ew := ew,
                    cars := filter (\<lambda>r. \<not> is_off_screen (Car_update dt [ns, ew] (objs h1 r))) cs1,
                    spawners := sps\<rparr>,
                 moved dt [ns, ew] cs1 h1, g1)"
proof -
  from wf have "distinct (cars s)" "list_all (\<lambda>r. r < next_ref h) (cars s)"
    by (simp_all add: well_formed_def)
  from spawners_loop_wf [OF sp this] have "distinct ([] @ cs1)" by simp
  from cars_loop_closed [OF this _ look]
  have "cars_loop dt [ns, ew] cs1 (cs1, h1) =
          Some (filter (\<lambda>r. \<not> is_off_screen (Car_update dt [ns, ew] (objs h1 r))) cs1,
                moved dt [ns, ew] cs1 h1)"
    by simp
  then show ?thesis by (simp add: Simulation_update_def sp li)
qed

lemma is_off_screen_margin: "is_off_screen c = outside_by_more_than 50 c"
  by (auto simp: is_off_screen_def outside_by_more_than_def)

section \<open>The claims on the simulation step\<close>

text \<open>
  Claim C1 (mutual exclusion). After every \<^verbatim>\<open>Simulation.update\<close>, from any state, the
  north-south light and the east-west light are not both off red; and the same holds of
  the state after any run of frames from the state \<^verbatim>\<open>__init__\<close> builds.
\<close>

theorem C1_mutual_exclusion:
  "(Simulation_update dt now (s, h, g) = Some (s', h', g') \<longrightarrow> mutual_exclusion s') \<and>
   (run frames (Simulation_init, Heap_init, g0) = Some (s'', h'', g'') \<longrightarrow>
      mutual_exclusion s'')"
  using Simulation_update_exclusive run_exclusive init_exclusive by blast

theorem C1_mutual_exclusion_witness:
  "\<exists>s' h' g'.
     Simulation_update (1 / 60) 6000 (Simulation_init, Heap_init, \<lambda>n. 2000) = Some (s', h', g') \<and>
     run [(1 / 60, 6000)] (Simulation_init, Heap_init, \<lambda>n. 2000) = Some (s', h', g') \<and>
     mutual_exclusion s'"
proof -
  from Simulation_update_total [OF init_spawners_ok] obtain s' h' g' where
    step: "Simulation_update (1 / 60) 6000 (Simulation_init, Heap_init, \<lambda>n. 2000) =
             Some (s', h', g')"
    by blast
  then have r: "run [(1 / 60, 6000)] (Simulation_init, Heap_init, \<lambda>n. 2000) = Some (s', h', g')"
    by simp
  from C1_mutual_exclusion [of "1 / 60" 6000 Simulation_init Heap_init "\<lambda>n. 2000" s' h' g'
      "[(1 / 60, 6000)]" "\<lambda>n. 2000" s' h' g'] step r
  show ?thesis by blast
qed

section \<open>The claims on the spawner and on the motion of a car\<close>

text \<open>
  Claim C8 (spawner cadence). Let the spawner's interval be \<open>(lo, hi)\<close>, not empty. When
  the current time has reached \<^verbatim>\<open>next_spawn_ms\<close>, the call appends exactly one new car,
  at the spawner's position, in its direction, with speed 120, length 25 and width 15,
  and sets \<^verbatim>\<open>next_spawn_ms\<close> to the current time plus the value
  \<^verbatim>\<open>random.randint(lo, hi)\<close> draws, which lies between \<open>lo\<close> and \<open>hi\<close>, both included.
  Before that time the call changes nothing, and no call appends more than one car. The
  draw is uniform in this sense: the raw numbers of a block of \<open>hi - lo + 1\<close> give each
  value from \<open>lo\<close> to \<open>hi\<close> exactly once, and every further block repeats the first.
\<close>

theorem C8_spawner_cadence:
  assumes "interval_range sp = (lo, hi)" and "lo \<le> hi"
  shows "(if now \<ge> next_spawn_ms sp then
            Spawner_update now (sp, cs, h, g) =
              Some (sp\<lparr>next_spawn_ms := now + draw lo hi (g 0)\<rparr>, cs @ [next_ref h],
                    h\<lparr>objs := (objs h)(next_ref h :=
                         \<lparr>direction = Spawner.direction sp,
                          position = \<lparr>x = fst (spawn_pos sp), y = snd (spawn_pos sp)\<rparr>,
                          speed = 120, length_car = 25, width = 15\<rparr>),
                       next_ref := Suc (next_ref h)\<rparr>,
                    \<lambda>n. g (Suc n)) \<and>
            now + lo \<le> next_spawn_ms (fst (the (Spawner_update now (sp, cs, h, g)))) \<and>
            next_spawn_ms (fst (the (Spawner_update now (sp, cs, h, g)))) \<le> now + hi
          else Spawner_update now (sp, cs, h, g) = Some (sp, cs, h, g)) \<and>
         length (fst (snd (the (Spawner_update now (sp, cs, h, g))))) \<le> length cs + 1 \<and>
         bij_betw (draw lo hi) {..<nat (hi - lo + 1)} {lo..hi} \<and>
         draw lo hi (r + nat (hi - lo + 1)) = draw lo hi r"
  using assms draw_range [OF assms(2), of "g 0"] draw_bij [OF assms(2)] draw_period [of lo hi r]
  by (simp add: Spawner_update_def new_Car_def randint_def Car_new_def)

theorem C8_spawner_cadence_witness:
  "interval_range (Spawner_new SUR (430, - 30)) = (1500, 4000) \<and>
   (1500::int) \<le> 4000 \<and>
   Spawner_update 5000 (Spawner_new SUR (430, - 30), [], Heap_init, \<lambda>n. 6252) =
     Some ((Spawner_new SUR (430, - 30))\<lparr>next_spawn_ms := 7750\<rparr>, [0],
           Heap_init\<lparr>objs := (objs Heap_init)(0 := Car_new SUR (430, - 30)), next_ref := 1\<rparr>,
           \<lambda>n. 6252) \<and>
   Spawner_update 6000
     ((Spawner_new SUR (430, - 30))\<lparr>next_spawn_ms := 7750\<rparr>, [0], Heap_init, \<lambda>n. 6252) =
     Some ((Spawner_new SUR (430, - 30))\<lparr>next_spawn_ms := 7750\<rparr>, [0], Heap_init, \<lambda>n. 6252) \<and>
   bij_betw (draw 1500 4000) {..<2501} {1500..4000}"
  using C8_spawner_cadence [of "Spawner_new SUR (430, - 30)" 1500 4000 5000 "[]" Heap_init
      "\<lambda>n. 6252" 0]
    C8_spawner_cadence [of "(Spawner_new SUR (430, - 30))\<lparr>next_spawn_ms := 7750\<rparr>" 1500 4000
      6000 "[0]" Heap_init "\<lambda>n. 6252" 0]
  by (simp add: Spawner_new_def Heap_init_def Car_new_def draw_def)

lemma braking_keeps:
  "braking c luces d = d \<or>
   braking c luces d = (if direction c \<in> {NORTE, SUR} then (fst d, 0) else (0, snd d))"
proof (induction luces arbitrary: d)
  case Nil
  then show ?case by simp
next
  case (Cons luz luces)
  have b: "brake c luz d = d \<or>
           brake c luz d = (if direction c \<in> {NORTE, SUR} then (fst d, 0) else (0, snd d))"
    by (cases "direction c") (auto simp: brake_def Let_def)
  from b Cons.IH [of "brake c luz d"] show ?case by auto
qed





section \<open>Where the code departs from the claims\<close>

subsection \<open>Braking: which lights count and where the band lies\<close>

text \<open>
  A light of the other axis is never green for a car, whatever it shows; and
  \<^verbatim>\<open>Simulation.update\<close> hands \<^verbatim>\<open>Car.update\<close> both lights.
\<close>

lemma other_axis_not_green:
  "(orientation luz \<in> {NORTE, SUR}) \<noteq> (d \<in> {NORTE, SUR}) \<Longrightarrow> \<not> is_green_for luz d"
  by (cases d; cases "orientation luz") (simp_all add: is_green_for_def)

lemma brake_in_band:
  assumes "in_band c" and "\<not> is_green_for luz (direction c)"
  shows "brake c luz d = (if direction c \<in> {NORTE, SUR} then (fst d, 0) else (0, snd d))"
  using assms
  by (cases "direction c") (auto simp: brake_def in_band_def leading_edge_def Let_def)

lemma braking_in_band:
  assumes "in_band c" and "luz \<in> set luces" and "\<not> is_green_for luz (direction c)"
  shows "braking c luces d = (if direction c \<in> {NORTE, SUR} then (fst d, 0) else (0, snd d))"
  using assms(2)
proof (induction luces arbitrary: d)
  case Nil
  then show ?case by simp
next
  case (Cons l luces)
  let ?z = "\<lambda>e. if direction c \<in> {NORTE, SUR} then (fst e, 0::real) else (0::real, snd e)"
  show ?case
  proof (cases "luz \<in> set luces")
    case True
    from Cons.IH [OF True, of "brake c l d"] braking_keeps [of c "[l]" d]
    show ?thesis by auto
  next
    case False
    with Cons.prems have "l = luz" by simp
    with brake_in_band [OF assms(1,3), of d] braking_keeps [of c luces "?z d"]
    show ?thesis by auto
  qed
qed

text \<open>
  In the band, a car handed a light that is not green for it stays where it is; handed the
  two lights of the simulation it always is, so it stays there at every later step too.
\<close>

lemma halts_in_band:
  assumes "in_band c" and "luz \<in> set luces" and "\<not> is_green_for luz (direction c)"
  shows "Car_update dt luces c = c"
  using braking_in_band [OF assms, of "intended c dt"]
  by (cases "direction c") (simp_all add: Car_update_def intended_def)

text \<open>Outside the band no light halts a car: it moves by its full displacement.\<close>

lemma brake_outside_band: "\<not> in_band c \<Longrightarrow> brake c luz d = d"
  by (cases "direction c") (auto simp: brake_def in_band_def leading_edge_def Let_def)

lemma moves_outside_band:
  assumes "\<not> in_band c"
  shows "Car_update dt luces c =
           c\<lparr>position := \<lparr>x = x (position c) + fst (intended c dt),
                            y = y (position c) + snd (intended c dt)\<rparr>\<rparr>"
proof -
  have "braking c luces d = d" for d
    by (induction luces arbitrary: d) (simp_all add: brake_outside_band [OF assms])
  then show ?thesis by (simp add: Car_update_def Let_def)
qed

lemma halts_in_band_both_lights:
  assumes "in_band c" and "orientation ns \<in> {NORTE, SUR}" and "orientation ew \<in> {ESTE, OESTE}"
  shows "Car_update dt [ns, ew] c = c"
proof (cases "direction c \<in> {NORTE, SUR}")
  case True
  with assms(3) have "\<not> is_green_for ew (direction c)"
    by (intro other_axis_not_green) auto
  from halts_in_band [OF assms(1) _ this, of "[ns, ew]"] show ?thesis by simp
next
  case False
  with assms(2) have "\<not> is_green_for ns (direction c)"
    by (intro other_axis_not_green) auto
  from halts_in_band [OF assms(1) _ this, of "[ns, ew]"] show ?thesis by simp
qed

text \<open>
  Claim C2 (a car with a green light moves by \<open>speed * dt\<close>) does not hold of the code.
  A northbound car at \<open>(470, 270)\<close>, front edge at 257.5, is handed the north-south
  light on green and the east-west light on red, as \<^verbatim>\<open>Simulation.update\<close> hands them.
  The north-south light is green for it, \<open>speed * dt\<close> is 2, and the car does not move:
  the loop also asks the east-west light, which is never green for a northbound car.
\<close>

theorem C2_halted_on_green:
  "is_green_for (TrafficLight_new p1 NORTE) NORTE \<and>
   Car_update (1 / 60)
     [TrafficLight_new p1 NORTE, (TrafficLight_new p2 ESTE)\<lparr>state := ROJO\<rparr>]
     (Car_new NORTE (470, 270)) = Car_new NORTE (470, 270) \<and>
   speed (Car_new NORTE (470, 270)) * (1 / 60) = 2"
  by (simp add: Car_update_def Car_new_def TrafficLight_new_def brake_def intended_def
      is_green_for_def Let_def stop_line_y_def stop_line_x_def ALTO_PANTALLA_def
      ANCHO_PANTALLA_def)

text \<open>
  Claim C3 (a car past the stop zone, entering or inside the intersection, is never
  halted) does not hold of the code. A northbound car at \<open>(470, 272.5)\<close> has its whole
  rectangle inside the square where the roads cross, its front edge on the far side of
  the square at 260. Whatever the two lights show and whatever \<open>dt\<close> is,
  \<^verbatim>\<open>Car.update\<close> returns the car as it was, so it stays there at every later step.
\<close>

theorem C3_halted_inside_intersection:
  "inside_intersection (Car_new NORTE (470, 272.5)) \<and>
   Car_update dt
     [\<lparr>TrafficLight.position = p1, orientation = NORTE, last_change_ms = t1, state = st1\<rparr>,
      \<lparr>TrafficLight.position = p2, orientation = ESTE, last_change_ms = t2, state = st2\<rparr>]
     (Car_new NORTE (470, 272.5)) = Car_new NORTE (470, 272.5)"
  by (simp add: Car_update_def Car_new_def brake_def intended_def is_green_for_def Let_def
      stop_line_y_def stop_line_x_def ALTO_PANTALLA_def ANCHO_PANTALLA_def
      inside_intersection_def rect_def)

text \<open>
  Claim C4 (a car in the 5-unit zone before the intersection on its approach side, facing
  a light that is not green, holds its position) does not hold of the code. A northbound
  car comes from below and meets the crossing at \<open>y = 340\<close>. At \<open>(470, 355)\<close> its front
  edge is at 342.5, inside the 5 units before that boundary, and the north-south light is
  red: it is not green for the car, and the car moves on to \<open>y = 353\<close>. The band the
  code tests for a northbound car lies at the other boundary, from 255 to 260.
\<close>

theorem C4_not_halted_before_intersection:
  "\<not> is_green_for ((TrafficLight_new p1 NORTE)\<lparr>state := ROJO\<rparr>) NORTE \<and>
   leading_edge (Car_new NORTE (470, 355)) = 342.5 \<and>
   y (position (Car_update (1 / 60)
     [(TrafficLight_new p1 NORTE)\<lparr>state := ROJO\<rparr>,
      \<lparr>TrafficLight.position = p2, orientation = ESTE, last_change_ms = t2, state = st2\<rparr>]
     (Car_new NORTE (470, 355)))) = 353"
  by (simp add: Car_update_def Car_new_def TrafficLight_new_def brake_def intended_def
      is_green_for_def leading_edge_def Let_def stop_line_y_def stop_line_x_def
      ALTO_PANTALLA_def ANCHO_PANTALLA_def)

subsection \<open>The follower light\<close>

text \<open>While the follower is red and its red has lasted less than 8000 ms, a step leaves it red.\<close>

lemma follower_stays_red:
  assumes "state ew = ROJO" and "now - last_change_ms ew < 8000"
  shows "state (snd (update_lights now (ns, ew))) = ROJO"
  using assms
  by (simp add: update_lights_def Let_def TrafficLight_update_table phase_duration_def)

text \<open>
  Claim C7 (the follower starts a green cycle when the leader turns red: yellow at
  \<open>T + 6000\<close>, red at \<open>T + 8000\<close>) does not hold of the code. From the initial state,
  with steps at 6000, 7990 and 8000 ms, the leader turns red at \<open>T = 8000\<close>; the follower
  is red with its clock at 7990, where the step before forced it, not at \<open>T\<close>. At
  \<open>T + 6000 = 14000\<close> the follower is still red, not yellow, with the same clock; at
  \<open>T + 8000 = 16000\<close> the leader turns green and the follower is forced to red again.
  The follower has not left red.
\<close>

theorem C7_follower_stays_red:
  "lights_after [6000, 7990, 8000] =
     ((traffic_light_ns Simulation_init)\<lparr>state := ROJO, last_change_ms := 8000\<rparr>,
      (traffic_light_ew Simulation_init)\<lparr>state := ROJO, last_change_ms := 7990\<rparr>) \<and>
   lights_after [6000, 7990, 8000, 14000] =
     ((traffic_light_ns Simulation_init)\<lparr>state := ROJO, last_change_ms := 8000\<rparr>,
      (traffic_light_ew Simulation_init)\<lparr>state := ROJO, last_change_ms := 7990\<rparr>) \<and>
   lights_after [6000, 7990, 8000, 14000, 16000] =
     ((traffic_light_ns Simulation_init)\<lparr>state := VERDE, last_change_ms := 16000\<rparr>,
      (traffic_light_ew Simulation_init)\<lparr>state := ROJO, last_change_ms := 16000\<rparr>)"
  by (simp add: lights_after_def update_lights_def TrafficLight_update_def Simulation_init_def
      TrafficLight_new_def Let_def TIEMPO_VERDE_def TIEMPO_AMARILLO_def)

subsection \<open>Culling\<close>


end
